theory Spec2Isabelle
  imports Main "HOL-Library.Word"
begin

unbundle bit_operations_syntax

section \<open>The arena allocator of \<^verbatim>\<open>include/arena_allocator.h\<close>\<close>

text \<open>
  \<^verbatim>\<open>size_t\<close> and \<^verbatim>\<open>uintptr_t\<close> are the unsigned 64-bit integers of an LP64 target:
  \<open>+\<close>, \<open>-\<close> and \<open>*\<close> wrap modulo \<open>2 ^ 64\<close>, \<open>unat\<close> reads the mathematical value.
  A pointer is the address it holds; \<^verbatim>\<open>nullptr\<close> is the address 0.
\<close>

type_synonym size_t = "64 word"
type_synonym uintptr_t = "64 word"

abbreviation nullptr :: uintptr_t where
  "nullptr \<equiv> 0"

text \<open>
  The three private members of \<^verbatim>\<open>class ArenaAllocator\<close>. The buffer is represented by its
  address; what it holds lives in the memory below.
\<close>

record ArenaAllocator =
  m_memoryBlock :: uintptr_t
  m_totalSize :: size_t
  m_offset :: size_t

text \<open>
  Memory outside the allocator object: one cell per address, holding a raw byte, a
  \<^verbatim>\<open>bool\<close> or a pointer. The allocator itself never reads or writes it; constructors and
  destructors of the objects placed in the buffer do.
\<close>

datatype cell = Raw "8 word" | Bool bool | Ptr uintptr_t

type_synonym memory = "uintptr_t \<Rightarrow> cell"

text \<open>
  A C++ object type as \<^verbatim>\<open>New<T>\<close> and \<^verbatim>\<open>AllocArray<T>\<close> see it: \<^verbatim>\<open>sizeof(T)\<close>,
  \<^verbatim>\<open>alignof(T)\<close>, the constructor run by placement new at an address, and the destructor.
\<close>

record 'args cxx_class =
  sizeof :: size_t
  alignof :: size_t
  ctor :: "'args \<Rightarrow> uintptr_t \<Rightarrow> memory \<Rightarrow> memory"
  dtor :: "uintptr_t \<Rightarrow> memory \<Rightarrow> memory"

subsection \<open>Construction\<close>

text \<open>
  The constructor, with the result of \<^verbatim>\<open>malloc(sizeInBytes)\<close> as a parameter: a null
  block throws \<^verbatim>\<open>std::bad_alloc\<close> (\<open>None\<close>), otherwise the arena starts with
  \<^verbatim>\<open>m_offset = 0\<close> (the default member initialiser).
\<close>

definition Construct :: "uintptr_t \<Rightarrow> size_t \<Rightarrow> ArenaAllocator option" where
  "Construct block sizeInBytes =
     (if block = nullptr then None
      else Some \<lparr>m_memoryBlock = block, m_totalSize = sizeInBytes, m_offset = 0\<rparr>)"

subsection \<open>Alloc\<close>

text \<open>
  Lines 77-78: \<^verbatim>\<open>offset = currentPtr & (align - 1)\<close>,
  \<^verbatim>\<open>padding = (offset == 0) ? 0 : (align - offset)\<close>.
\<close>

definition Alloc_padding :: "size_t \<Rightarrow> uintptr_t \<Rightarrow> uintptr_t" where
  "Alloc_padding align currentPtr =
     (let offset = currentPtr AND (align - 1)
      in if offset = 0 then 0 else align - offset)"

text \<open>
  \<^verbatim>\<open>Alloc(size, align)\<close>: the returned pointer and the allocator afterwards. The bound check
  compares the wrapped sum \<^verbatim>\<open>m_offset + padding + size\<close> with \<^verbatim>\<open>m_totalSize\<close>.
\<close>

definition Alloc :: "size_t \<Rightarrow> size_t \<Rightarrow> ArenaAllocator \<Rightarrow> uintptr_t \<times> ArenaAllocator" where
  "Alloc sz align a =
     (let currentPtr = m_memoryBlock a + m_offset a;
          padding = Alloc_padding align currentPtr
      in if m_offset a + padding + sz > m_totalSize a then (nullptr, a)
         else (let nextAddress = currentPtr + padding
               in (nextAddress, a\<lparr>m_offset := m_offset a + (padding + sz)\<rparr>)))"

subsection \<open>Reset, markers, introspection\<close>

definition Reset :: "ArenaAllocator \<Rightarrow> ArenaAllocator" where
  "Reset a = a\<lparr>m_offset := 0\<rparr>"

definition GetUsedMemory :: "ArenaAllocator \<Rightarrow> size_t" where
  "GetUsedMemory a = m_offset a"

definition GetTotalSize :: "ArenaAllocator \<Rightarrow> size_t" where
  "GetTotalSize a = m_totalSize a"

definition GetMarker :: "ArenaAllocator \<Rightarrow> size_t" where
  "GetMarker a = m_offset a"

definition ResetToMarker :: "size_t \<Rightarrow> ArenaAllocator \<Rightarrow> ArenaAllocator" where
  "ResetToMarker marker a = a\<lparr>m_offset := marker\<rparr>"

subsection \<open>New and AllocArray\<close>

text \<open>
  \<^verbatim>\<open>New<T>(args...)\<close> on the allocator and the memory: \<^verbatim>\<open>Alloc(sizeof(T), alignof(T))\<close>,
  a null result is returned as it is, otherwise placement new runs the constructor at the
  address and returns that address.
\<close>

definition New ::
  "'args cxx_class \<Rightarrow> 'args \<Rightarrow> ArenaAllocator \<times> memory \<Rightarrow> uintptr_t \<times> (ArenaAllocator \<times> memory)" where
  "New T args w =
     (case w of (a, h) \<Rightarrow>
        (case Alloc (sizeof T) (alignof T) a of (mem, a') \<Rightarrow>
           if mem = nullptr then (nullptr, (a', h))
           else (mem, (a', ctor T args mem h))))"

text \<open>\<^verbatim>\<open>AllocArray<T>(count)\<close>: the product \<^verbatim>\<open>sizeof(T) * count\<close> is a \<^verbatim>\<open>size_t\<close> product.\<close>

definition AllocArray :: "'args cxx_class \<Rightarrow> size_t \<Rightarrow> ArenaAllocator \<Rightarrow> uintptr_t \<times> ArenaAllocator" where
  "AllocArray T count a = Alloc (sizeof T * count) (alignof T) a"

subsection \<open>Sequences of calls\<close>

text \<open>An allocation request of a client: one of the three allocating member functions.\<close>

datatype 'args request =
    ReqAlloc size_t size_t
  | ReqNew "'args cxx_class" 'args
  | ReqAllocArray "'args cxx_class" size_t

fun serve :: "'args request \<Rightarrow> ArenaAllocator \<times> memory \<Rightarrow> uintptr_t \<times> (ArenaAllocator \<times> memory)" where
  "serve (ReqAlloc sz align) (a, h) = (case Alloc sz align a of (p, a') \<Rightarrow> (p, (a', h)))"
| "serve (ReqNew T args) (a, h) = New T args (a, h)"
| "serve (ReqAllocArray T count) (a, h) = (case AllocArray T count a of (p, a') \<Rightarrow> (p, (a', h)))"

text \<open>A sequence of requests: the addresses returned, in order, and the final state.\<close>

fun serve_all ::
  "'args request list \<Rightarrow> ArenaAllocator \<times> memory \<Rightarrow> uintptr_t list \<times> (ArenaAllocator \<times> memory)" where
  "serve_all [] w = ([], w)"
| "serve_all (r # rs) w =
     (case serve r w of (p, w') \<Rightarrow>
        (case serve_all rs w' of (ps, w'') \<Rightarrow> (p # ps, w'')))"

text \<open>
  A client session: any of the mutating calls and \<^verbatim>\<open>GetMarker\<close>. The session records the
  markers \<^verbatim>\<open>GetMarker\<close> has returned; \<^verbatim>\<open>ResetToMarker\<close> with a value that was never returned
  is outside the contract and ends the session with \<open>None\<close>.
\<close>

datatype 'args op =
    OpRequest "'args request"
  | OpReset
  | OpGetMarker
  | OpResetToMarker size_t

record session =
  arena :: ArenaAllocator
  heap :: memory
  markers :: "size_t list"

fun step :: "'args op \<Rightarrow> session \<Rightarrow> session option" where
  "step (OpRequest r) s =
     (case serve r (arena s, heap s) of (p, (a', h')) \<Rightarrow> Some (s\<lparr>arena := a', heap := h'\<rparr>))"
| "step OpReset s = Some (s\<lparr>arena := Reset (arena s)\<rparr>)"
| "step OpGetMarker s = Some (s\<lparr>markers := GetMarker (arena s) # markers s\<rparr>)"
| "step (OpResetToMarker m) s =
     (if m \<in> set (markers s) then Some (s\<lparr>arena := ResetToMarker m (arena s)\<rparr>) else None)"

fun run :: "'args op list \<Rightarrow> session \<Rightarrow> session option" where
  "run [] s = Some s"
| "run (x # xs) s = (case step x s of None \<Rightarrow> None | Some s' \<Rightarrow> run xs s')"

subsection \<open>The object type of the test \<^verbatim>\<open>TestNoDestructorCallOnReset\<close>\<close>

text \<open>
  \<^verbatim>\<open>struct TestObj { bool* isDestructed; ... }\<close>: the constructor stores the flag pointer in
  the object and clears the flag, the destructor sets the flag the object points to.
\<close>

definition TestObj :: "uintptr_t cxx_class" where
  "TestObj =
     \<lparr>sizeof = 8, alignof = 8,
      ctor = (\<lambda>flag p h. (h(p := Ptr flag))(flag := Bool False)),
      dtor = (\<lambda>p h. case h p of Ptr flag \<Rightarrow> h(flag := Bool True) | _ \<Rightarrow> h)\<rparr>"

subsection \<open>Well-formed arenas\<close>

text \<open>
  An arena in the Active state: the block \<^verbatim>\<open>malloc\<close> returned is not null and lies inside
  the address space together with its one-past-the-end address, and the offset is within
  the capacity.
\<close>

definition arena_wf :: "ArenaAllocator \<Rightarrow> bool" where
  "arena_wf a \<longleftrightarrow>
     m_memoryBlock a \<noteq> nullptr \<and>
     unat (m_memoryBlock a) + unat (m_totalSize a) < 2 ^ 64 \<and>
     m_offset a \<le> m_totalSize a"

subsection \<open>Auxiliary notions for the proofs\<close>

text \<open>What a request does to the allocator alone: all three go through \<open>Alloc\<close>.\<close>

definition serve_arena :: "'args request \<Rightarrow> ArenaAllocator \<Rightarrow> uintptr_t \<times> ArenaAllocator" where
  "serve_arena r a =
     (case r of
        ReqAlloc sz align \<Rightarrow> Alloc sz align a
      | ReqNew T args \<Rightarrow> Alloc (sizeof T) (alignof T) a
      | ReqAllocArray T count \<Rightarrow> Alloc (sizeof T * count) (alignof T) a)"

text \<open>The invariant of a session: the offset and every recorded marker are within the capacity.\<close>

definition session_inv :: "session \<Rightarrow> bool" where
  "session_inv s \<longleftrightarrow>
     m_offset (arena s) \<le> m_totalSize (arena s) \<and>
     (\<forall>m \<in> set (markers s). m \<le> m_totalSize (arena s))"

section \<open>Word arithmetic of the padding\<close>

lemma unat_and_pow2_minus1:
  fixes c :: "64 word"
  shows "unat (c AND (2 ^ k - 1)) = unat c mod 2 ^ k"
proof -
  have "c AND (2 ^ k - 1) = take_bit k c"
    by (simp only: take_bit_eq_mask mask_eq_decr_exp)
  then have "unat (c AND (2 ^ k - 1)) = take_bit k (unat c)"
    by (simp only: unsigned_take_bit_eq)
  then show ?thesis
    by (simp only: take_bit_eq_mod)
qed

lemma unat_pow2:
  assumes "k < 64"
  shows "unat (2 ^ k :: 64 word) = 2 ^ k"
proof -
  have "unat (of_nat (2 ^ k) :: 64 word) = 2 ^ k mod 2 ^ 64"
    by (simp only: unat_of_nat) simp
  moreover have "(2::nat) ^ k < 2 ^ 64"
    using assms by (simp only: power_strict_increasing_iff)
  ultimately show ?thesis by simp
qed

section \<open>Frame and bound of \<open>Alloc\<close>\<close>

lemma Alloc_capacity [simp]: "m_totalSize (snd (Alloc sz align a)) = m_totalSize a"
  by (simp add: Alloc_def Let_def)

lemma Alloc_block [simp]: "m_memoryBlock (snd (Alloc sz align a)) = m_memoryBlock a"
  by (simp add: Alloc_def Let_def)

lemma Alloc_offset_le:
  assumes "m_offset a \<le> m_totalSize a"
  shows "m_offset (snd (Alloc sz align a)) \<le> m_totalSize a"
  using assms by (simp add: Alloc_def Let_def add.assoc not_less)

lemma serve_ptr: "fst (serve r (a, h)) = fst (serve_arena r a)"
  by (cases r) (auto simp: serve_arena_def New_def AllocArray_def split: prod.splits)

lemma serve_arena_eq: "fst (snd (serve r (a, h))) = snd (serve_arena r a)"
  by (cases r) (auto simp: serve_arena_def New_def AllocArray_def split: prod.splits)

lemma serve_arena_capacity [simp]: "m_totalSize (snd (serve_arena r a)) = m_totalSize a"
  by (cases r) (simp_all add: serve_arena_def)

lemma serve_arena_block [simp]: "m_memoryBlock (snd (serve_arena r a)) = m_memoryBlock a"
  by (cases r) (simp_all add: serve_arena_def)

lemma serve_arena_offset_le:
  "m_offset a \<le> m_totalSize a \<Longrightarrow> m_offset (snd (serve_arena r a)) \<le> m_totalSize a"
  by (cases r) (simp_all add: serve_arena_def Alloc_offset_le)

subsection \<open>The session invariant is preserved\<close>

lemma step_inv:
  assumes "session_inv s" and "step x s = Some s'"
  shows "session_inv s' \<and> m_totalSize (arena s') = m_totalSize (arena s)
    \<and> m_memoryBlock (arena s') = m_memoryBlock (arena s)"
proof (cases x)
  case (OpRequest r)
  obtain p a' h' where sv: "serve r (arena s, heap s) = (p, (a', h'))"
    by (metis prod.exhaust)
  then have a': "a' = snd (serve_arena r (arena s))"
    using serve_arena_eq [of r "arena s" "heap s"] by simp
  from assms OpRequest sv have s': "s' = s\<lparr>arena := a', heap := h'\<rparr>"
    by simp
  show ?thesis
    using assms(1) by (simp add: s' a' session_inv_def serve_arena_offset_le)
next
  case OpReset
  with assms show ?thesis by (auto simp: session_inv_def Reset_def)
next
  case OpGetMarker
  with assms show ?thesis by (auto simp: session_inv_def GetMarker_def)
next
  case (OpResetToMarker m)
  with assms show ?thesis
    by (auto simp: session_inv_def ResetToMarker_def split: if_splits)
qed

lemma run_inv:
  assumes "session_inv s" and "run ops s = Some s'"
  shows "session_inv s' \<and> m_totalSize (arena s') = m_totalSize (arena s)
    \<and> m_memoryBlock (arena s') = m_memoryBlock (arena s)"
  using assms
proof (induction ops arbitrary: s)
  case Nil
  then show ?case by simp
next
  case (Cons x xs)
  from Cons.prems(2) obtain s1 where s1: "step x s = Some s1" and r: "run xs s1 = Some s'"
    by (auto split: option.splits)
  from step_inv [OF Cons.prems(1) s1] Cons.IH [OF _ r] show ?case
    by simp
qed

section \<open>\<open>Alloc\<close> when the bound check does not wrap\<close>

lemma currentPtr_unat:
  assumes "arena_wf a"
  shows "unat (m_memoryBlock a + m_offset a) = unat (m_memoryBlock a) + unat (m_offset a)"
proof -
  from assms have "unat (m_offset a) \<le> unat (m_totalSize a)"
    by (simp add: arena_wf_def word_le_nat_alt)
  with assms have "unat (m_memoryBlock a) + unat (m_offset a) < 2 ^ 64"
    by (simp add: arena_wf_def)
  then show ?thesis
    using unat_add_lem [of "m_memoryBlock a" "m_offset a"] by simp
qed

lemma padding_unat:
  assumes "k < 64"
  shows "unat (Alloc_padding (2 ^ k) c) =
    (if unat c mod 2 ^ k = 0 then 0 else 2 ^ k - unat c mod 2 ^ k)"
proof -
  let ?r = "c AND (2 ^ k - 1)"
  have r: "unat ?r = unat c mod 2 ^ k"
    by (rule unat_and_pow2_minus1)
  have zero: "?r = 0 \<longleftrightarrow> unat c mod 2 ^ k = 0"
    using r by (simp add: unat_eq_0 [symmetric] del: unat_eq_0)
  have "unat ?r < 2 ^ k"
    by (simp add: r)
  then have "?r \<le> 2 ^ k"
    by (simp add: word_le_nat_alt unat_pow2 [OF assms] del: unat_eq_0)
  then have "unat (2 ^ k - ?r) = 2 ^ k - unat c mod 2 ^ k"
    by (simp only: unat_sub unat_pow2 [OF assms] r)
  with zero show ?thesis
    by (simp add: Alloc_padding_def Let_def)
qed

lemma padding_less:
  assumes "k < 64"
  shows "unat (Alloc_padding (2 ^ k) c) < 2 ^ k"
  by (simp add: padding_unat [OF assms])

lemma padding_aligned:
  assumes "k < 64"
  shows "(unat c + unat (Alloc_padding (2 ^ k) c)) mod 2 ^ k = 0"
proof (cases "unat c mod 2 ^ k = 0")
  case True
  then show ?thesis by (simp add: padding_unat [OF assms])
next
  case False
  have "(unat c + (2 ^ k - unat c mod 2 ^ k)) mod 2 ^ k
      = (unat c mod 2 ^ k + (2 ^ k - unat c mod 2 ^ k)) mod 2 ^ k"
    by (simp only: mod_add_left_eq)
  also have "unat c mod 2 ^ k + (2 ^ k - unat c mod 2 ^ k) = (2::nat) ^ k"
    by simp
  finally show ?thesis
    using False by (simp add: padding_unat [OF assms])
qed

lemma Alloc_fits:
  assumes wf: "arena_wf a"
    and fits: "unat (m_offset a) + unat (Alloc_padding align (m_memoryBlock a + m_offset a)) + unat sz
      \<le> unat (m_totalSize a)"
  shows "Alloc sz align a =
      (m_memoryBlock a + m_offset a + Alloc_padding align (m_memoryBlock a + m_offset a),
       a\<lparr>m_offset := m_offset a + (Alloc_padding align (m_memoryBlock a + m_offset a) + sz)\<rparr>)"
    and "unat (fst (Alloc sz align a)) =
      unat (m_memoryBlock a) + unat (m_offset a)
        + unat (Alloc_padding align (m_memoryBlock a + m_offset a))"
    and "unat (m_offset (snd (Alloc sz align a))) =
      unat (m_offset a) + unat (Alloc_padding align (m_memoryBlock a + m_offset a)) + unat sz"
    and "fst (Alloc sz align a) \<noteq> nullptr"
proof -
  let ?pad = "Alloc_padding align (m_memoryBlock a + m_offset a)"
  have cap: "unat (m_totalSize a) < 2 ^ 64"
    using unsigned_less [of "m_totalSize a"] by simp
  from fits cap have s1: "unat (m_offset a) + unat ?pad < 2 ^ 64"
    by simp
  then have u1: "unat (m_offset a + ?pad) = unat (m_offset a) + unat ?pad"
    using unat_add_lem [of "m_offset a" ?pad] by simp
  from fits cap have "unat (m_offset a + ?pad) + unat sz < 2 ^ 64"
    by (simp add: u1)
  then have u2: "unat (m_offset a + ?pad + sz) = unat (m_offset a) + unat ?pad + unat sz"
    using unat_add_lem [of "m_offset a + ?pad" sz] by (simp add: u1)
  with fits have ok: "\<not> m_totalSize a < m_offset a + ?pad + sz"
    by (simp add: word_less_nat_alt)
  then show eq: "Alloc sz align a =
      (m_memoryBlock a + m_offset a + ?pad, a\<lparr>m_offset := m_offset a + (?pad + sz)\<rparr>)"
    by (simp add: Alloc_def Let_def)
  from wf have base: "unat (m_memoryBlock a) + unat (m_totalSize a) < 2 ^ 64"
    and nz: "m_memoryBlock a \<noteq> 0"
    by (simp_all add: arena_wf_def)
  from base fits have "unat (m_memoryBlock a + m_offset a) + unat ?pad < 2 ^ 64"
    by (simp add: currentPtr_unat [OF wf])
  then have u3: "unat (m_memoryBlock a + m_offset a + ?pad)
      = unat (m_memoryBlock a) + unat (m_offset a) + unat ?pad"
    using unat_add_lem [of "m_memoryBlock a + m_offset a" ?pad]
    by (simp add: currentPtr_unat [OF wf])
  then show p: "unat (fst (Alloc sz align a)) = unat (m_memoryBlock a) + unat (m_offset a) + unat ?pad"
    by (simp add: eq)
  show "unat (m_offset (snd (Alloc sz align a))) = unat (m_offset a) + unat ?pad + unat sz"
    using u2 by (simp add: eq add.assoc)
  from nz have "0 < unat (m_memoryBlock a)"
    by (simp add: unat_gt_0)
  with p have "unat (fst (Alloc sz align a)) \<noteq> 0"
    by simp
  then show "fst (Alloc sz align a) \<noteq> nullptr"
    by (simp only: unat_eq_0 not_False_eq_True)
qed

lemma Alloc_exhausted:
  assumes "unat (m_offset a) + unat (Alloc_padding align (m_memoryBlock a + m_offset a)) + unat sz
      < 2 ^ 64"
    and "unat (m_totalSize a)
      < unat (m_offset a) + unat (Alloc_padding align (m_memoryBlock a + m_offset a)) + unat sz"
  shows "Alloc sz align a = (nullptr, a)"
proof -
  let ?pad = "Alloc_padding align (m_memoryBlock a + m_offset a)"
  from assms(1) have "unat (m_offset a) + unat ?pad < 2 ^ 64"
    by simp
  then have u1: "unat (m_offset a + ?pad) = unat (m_offset a) + unat ?pad"
    using unat_add_lem [of "m_offset a" ?pad] by simp
  from assms(1) have "unat (m_offset a + ?pad) + unat sz < 2 ^ 64"
    by (simp add: u1)
  then have "unat (m_offset a + ?pad + sz) = unat (m_offset a) + unat ?pad + unat sz"
    using unat_add_lem [of "m_offset a + ?pad" sz] by (simp add: u1)
  with assms(2) have "m_totalSize a < m_offset a + ?pad + sz"
    by (simp add: word_less_nat_alt)
  then show ?thesis
    by (simp add: Alloc_def Let_def)
qed

section \<open>Sequences of requests\<close>

lemma serve_all_Cons:
  "fst (serve_all (r # rs) w) = fst (serve r w) # fst (serve_all rs (snd (serve r w)))"
  "snd (serve_all (r # rs) w) = snd (serve_all rs (snd (serve r w)))"
  by (simp_all split: prod.splits)

lemma serve_all_indep:
  "fst (serve_all rs (a, h)) = fst (serve_all rs (a, h'))
   \<and> fst (snd (serve_all rs (a, h))) = fst (snd (serve_all rs (a, h')))"
proof (induction rs arbitrary: a h h')
  case Nil
  show ?case by simp
next
  case (Cons r rs)
  obtain a1 h1 where s1: "snd (serve r (a, h)) = (a1, h1)"
    by (metis prod.exhaust)
  obtain a2 h2 where s2: "snd (serve r (a, h')) = (a2, h2)"
    by (metis prod.exhaust)
  have p: "fst (serve r (a, h)) = fst (serve r (a, h'))"
    by (simp only: serve_ptr)
  have "a1 = a2"
    using serve_arena_eq [of r a h] serve_arena_eq [of r a h'] s1 s2 by simp
  then show ?case
    using Cons.IH [of a1 h1 h2] by (simp only: serve_all_Cons s1 s2 p)
qed

lemma serve_all_frame:
  "m_totalSize (fst (snd (serve_all rs (a, h)))) = m_totalSize a
   \<and> m_memoryBlock (fst (snd (serve_all rs (a, h)))) = m_memoryBlock a"
proof (induction rs arbitrary: a h)
  case Nil
  show ?case by simp
next
  case (Cons r rs)
  obtain a1 h1 where s1: "snd (serve r (a, h)) = (a1, h1)"
    by (metis prod.exhaust)
  have "a1 = snd (serve_arena r a)"
    using serve_arena_eq [of r a h] s1 by simp
  then show ?case
    using Cons.IH [of a1 h1] by (simp only: serve_all_Cons s1) simp
qed

lemma ResetToMarker_restores:
  "ResetToMarker (GetMarker a) (fst (snd (serve_all rs (a, h)))) = a"
proof -
  have "m_totalSize (fst (snd (serve_all rs (a, h)))) = m_totalSize a"
    and "m_memoryBlock (fst (snd (serve_all rs (a, h)))) = m_memoryBlock a"
    using serve_all_frame [of rs a h] by simp_all
  then show ?thesis
    by (simp add: ResetToMarker_def GetMarker_def)
qed


subsection \<open>Aligned addresses and object sizes\<close>

lemma least_aligned:
  fixes c p x m :: nat
  assumes "p mod m = 0" and "x mod m = 0" and "c \<le> x" and "p < c + m"
  shows "p \<le> x"
proof (rule ccontr)
  assume "\<not> p \<le> x"
  then have lt: "x < p" by simp
  from assms(1,2) have "m dvd p - x"
    by (simp add: mod_eq_0_iff_dvd dvd_diff_nat)
  moreover from lt have "0 < p - x" by simp
  ultimately have "m \<le> p - x"
    by (simp add: dvd_imp_le)
  with assms(3,4) lt show False by simp
qed

lemma pow2_multiple_bound:
  fixes n :: nat
  assumes k: "k < 64" and dvd: "2 ^ k dvd n" and n: "n < 2 ^ 63"
  shows "n + 2 ^ k \<le> 2 ^ 63"
proof -
  from k have "k \<le> 63" by simp
  then have "(2::nat) ^ k dvd 2 ^ 63"
    by (rule le_imp_power_dvd)
  then have "(2::nat) ^ k dvd 2 ^ 63 - n"
    using dvd by (rule dvd_diff_nat)
  moreover from n have "0 < (2::nat) ^ 63 - n"
    by simp
  ultimately have "(2::nat) ^ k \<le> 2 ^ 63 - n"
    by (rule dvd_imp_le)
  with n show ?thesis by simp
qed

lemma class_request_no_wrap:
  assumes k: "k < 64"
    and dvd: "2 ^ k dvd unat sz"
    and sz: "unat sz < 2 ^ 63"
    and cap: "unat (m_totalSize a) < 2 ^ 63"
    and off: "m_offset a \<le> m_totalSize a"
  shows "unat (m_offset a) + unat (Alloc_padding (2 ^ k) c) + unat sz < 2 ^ 64"
proof -
  have "unat (Alloc_padding (2 ^ k) c) < 2 ^ k"
    by (rule padding_less [OF k])
  moreover have "unat sz + 2 ^ k \<le> 2 ^ 63"
    by (rule pow2_multiple_bound [OF k dvd sz])
  moreover from off cap have "unat (m_offset a) < 2 ^ 63"
    by (simp add: word_le_nat_alt)
  ultimately show ?thesis by simp
qed

subsection \<open>\<open>New\<close> in terms of \<open>Alloc\<close>\<close>

lemma New_ptr: "fst (New T args (a, h)) = fst (Alloc (sizeof T) (alignof T) a)"
  by (simp add: New_def split: prod.splits)

lemma New_null:
  "fst (Alloc (sizeof T) (alignof T) a) = nullptr \<Longrightarrow>
     snd (New T args (a, h)) = (snd (Alloc (sizeof T) (alignof T) a), h)"
  by (auto simp: New_def split: prod.splits)

lemma New_constructs:
  "fst (Alloc (sizeof T) (alignof T) a) \<noteq> nullptr \<Longrightarrow>
     snd (New T args (a, h)) =
       (snd (Alloc (sizeof T) (alignof T) a), ctor T args (fst (Alloc (sizeof T) (alignof T) a)) h)"
  by (auto simp: New_def split: prod.splits)

subsection \<open>Successive allocations\<close>


lemma Alloc_then_Alloc:
  assumes wf: "arena_wf a"
    and fitsA: "unat (m_offset a) + unat (Alloc_padding alignA (m_memoryBlock a + m_offset a))
      + unat szA \<le> unat (m_totalSize a)"
    and fitsB: "unat (m_offset (snd (Alloc szA alignA a)))
      + unat (Alloc_padding alignB
          (m_memoryBlock a + m_offset (snd (Alloc szA alignA a))))
      + unat szB \<le> unat (m_totalSize a)"
  shows "unat (fst (Alloc szA alignA a)) + unat szA
      \<le> unat (fst (Alloc szB alignB (snd (Alloc szA alignA a))))"
    and "unat (fst (Alloc szB alignB (snd (Alloc szA alignA a)))) + unat szB
      \<le> unat (m_memoryBlock a) + unat (m_offset (snd (Alloc szB alignB (snd (Alloc szA alignA a)))))"
proof -
  let ?a1 = "snd (Alloc szA alignA a)"
  have off1: "m_offset ?a1 \<le> m_totalSize a"
    using wf by (simp add: Alloc_offset_le arena_wf_def)
  with wf have wf1: "arena_wf ?a1"
    by (simp add: arena_wf_def)
  have fitsB': "unat (m_offset ?a1) + unat (Alloc_padding alignB (m_memoryBlock ?a1 + m_offset ?a1))
      + unat szB \<le> unat (m_totalSize ?a1)"
    using fitsB by simp
  note A = Alloc_fits(2,3) [OF wf fitsA]
  note B = Alloc_fits(2,3) [OF wf1 fitsB']
  show "unat (fst (Alloc szA alignA a)) + unat szA \<le> unat (fst (Alloc szB alignB ?a1))"
    using A B by simp
  show "unat (fst (Alloc szB alignB ?a1)) + unat szB
      \<le> unat (m_memoryBlock a) + unat (m_offset (snd (Alloc szB alignB ?a1)))"
    using B by simp
qed

section \<open>C1: the offset never exceeds the capacity\<close>

text \<open>
  Claim C1. Start from a freshly constructed arena and perform any sequence of
  \<^verbatim>\<open>Alloc\<close>, \<^verbatim>\<open>New\<close>, \<^verbatim>\<open>AllocArray\<close>, \<^verbatim>\<open>Reset\<close>, \<^verbatim>\<open>GetMarker\<close> and \<^verbatim>\<open>ResetToMarker\<close> calls in
  which every marker passed to \<^verbatim>\<open>ResetToMarker\<close> was returned by \<^verbatim>\<open>GetMarker\<close> before. In the
  state reached, \<open>0 \<le> offset \<le> capacity\<close>, the capacity is the one given at construction,
  and a further \<^verbatim>\<open>Alloc\<close> with any size and any alignment (a power of two or not) still
  leaves the offset within the capacity. The list of calls is arbitrary, so this covers
  every reachable state.
\<close>

theorem offset_le_capacity:
  assumes "Construct block cap = Some a0"
    and "run ops \<lparr>arena = a0, heap = h0, markers = []\<rparr> = Some s"
  shows "0 \<le> unat (m_offset (arena s))
    \<and> unat (m_offset (arena s)) \<le> unat (m_totalSize (arena s))
    \<and> m_totalSize (arena s) = cap
    \<and> (\<forall>sz align. unat (m_offset (snd (Alloc sz align (arena s)))) \<le> unat (m_totalSize (arena s)))"
proof -
  from assms(1) have a0: "a0 = \<lparr>m_memoryBlock = block, m_totalSize = cap, m_offset = 0\<rparr>"
    by (auto simp: Construct_def split: if_splits)
  have "session_inv \<lparr>arena = a0, heap = h0, markers = []\<rparr>"
    by (simp add: session_inv_def a0)
  from run_inv [OF this assms(2)] have inv: "session_inv s" and cap: "m_totalSize (arena s) = cap"
    by (simp_all add: a0)
  from inv have le: "m_offset (arena s) \<le> m_totalSize (arena s)"
    by (simp add: session_inv_def)
  show ?thesis
    using le cap Alloc_offset_le [OF le] by (simp add: word_le_nat_alt)
qed

theorem offset_le_capacity_witness:
  "Construct 4096 100 = Some \<lparr>m_memoryBlock = 4096, m_totalSize = 100, m_offset = 0\<rparr>
   \<and> (\<exists>s. run [OpRequest (ReqAlloc 80 16), OpGetMarker, OpRequest (ReqNew TestObj 20480),
           OpRequest (ReqAlloc 50 16), OpResetToMarker 80, OpRequest (ReqAllocArray TestObj 2), OpReset,
           OpRequest (ReqAlloc 18446744073709551612 1)]
        \<lparr>arena = \<lparr>m_memoryBlock = 4096, m_totalSize = 100, m_offset = 0\<rparr>,
         heap = (\<lambda>_. Raw 0), markers = []\<rparr> = Some s
      \<and> unat (m_offset (arena s)) \<le> unat (m_totalSize (arena s))
      \<and> m_totalSize (arena s) = 100)"
proof -
  have c: "Construct 4096 100 = Some \<lparr>m_memoryBlock = 4096, m_totalSize = 100, m_offset = 0\<rparr>"
    by (simp add: Construct_def)
  have "\<exists>s. run [OpRequest (ReqAlloc 80 16), OpGetMarker, OpRequest (ReqNew TestObj 20480),
           OpRequest (ReqAlloc 50 16), OpResetToMarker 80, OpRequest (ReqAllocArray TestObj 2), OpReset,
           OpRequest (ReqAlloc 18446744073709551612 1)]
        \<lparr>arena = \<lparr>m_memoryBlock = 4096, m_totalSize = 100, m_offset = 0\<rparr>,
         heap = (\<lambda>_. Raw 0), markers = []\<rparr> = Some s"
    by (simp add: Alloc_def Alloc_padding_def New_def AllocArray_def TestObj_def Reset_def
        GetMarker_def ResetToMarker_def Let_def)
  then obtain s where r: "run [OpRequest (ReqAlloc 80 16), OpGetMarker, OpRequest (ReqNew TestObj 20480),
           OpRequest (ReqAlloc 50 16), OpResetToMarker 80, OpRequest (ReqAllocArray TestObj 2), OpReset,
           OpRequest (ReqAlloc 18446744073709551612 1)]
        \<lparr>arena = \<lparr>m_memoryBlock = 4096, m_totalSize = 100, m_offset = 0\<rparr>,
         heap = (\<lambda>_. Raw 0), markers = []\<rparr> = Some s" ..
  from offset_le_capacity [OF c r] have
    "unat (m_offset (arena s)) \<le> unat (m_totalSize (arena s)) \<and> m_totalSize (arena s) = 100"
    by blast
  with c r show ?thesis by blast
qed

section \<open>C2: the bound check on requests that wrap\<close>

text \<open>
  Claim C2 (failure exactly when \<open>offset + padding + size\<close> exceeds the capacity, with the
  offset unchanged; otherwise the offset advances by \<open>padding + size\<close>). The lemmas
  \<open>Alloc_fits\<close> and \<open>Alloc_exhausted\<close> above give this whenever the sum stays below
  \<open>2 ^ 64\<close>. The check itself adds in \<^verbatim>\<open>size_t\<close>, and here is what \<^verbatim>\<open>Alloc\<close> computes when the
  sum wraps: on an active 100-byte arena with offset 8 (the state after \<^verbatim>\<open>Alloc(8, 1)\<close> on
  the fresh arena), the request \<^verbatim>\<open>Alloc(18446744073709551612, 1)\<close> needs far more than
  the 92 bytes left, yet the wrapped sum is 4, so the call returns the non-null address
  \<open>base + 8\<close> and moves the offset back from 8 to 4.
\<close>

theorem Alloc_size_wraps:
  "arena_wf \<lparr>m_memoryBlock = 4096, m_totalSize = 100, m_offset = 8\<rparr>
   \<and> Alloc 8 1 \<lparr>m_memoryBlock = 4096, m_totalSize = 100, m_offset = 0\<rparr>
       = (4096, \<lparr>m_memoryBlock = 4096, m_totalSize = 100, m_offset = 8\<rparr>)
   \<and> unat (100 :: size_t)
       < unat (8 :: size_t) + unat (Alloc_padding 1 (4096 + 8))
         + unat (18446744073709551612 :: size_t)
   \<and> Alloc 18446744073709551612 1 \<lparr>m_memoryBlock = 4096, m_totalSize = 100, m_offset = 8\<rparr>
       = (4104, \<lparr>m_memoryBlock = 4096, m_totalSize = 100, m_offset = 4\<rparr>)"
  by (simp add: arena_wf_def Alloc_def Alloc_padding_def Let_def)

section \<open>C3: a successful allocation is aligned\<close>

text \<open>
  Claim C3. For an active arena, an alignment \<open>2 ^ k\<close> and a size that, together with
  the computed padding, fits in the remaining capacity, \<^verbatim>\<open>Alloc\<close> returns an address that
  is not null and is a multiple of the alignment (its low \<open>k\<close> bits are clear), and that
  address is the least multiple of the alignment at or after \<open>base + offset\<close>.
\<close>

theorem Alloc_aligned:
  assumes wf: "arena_wf a"
    and k: "k < 64"
    and fits: "unat (Alloc_padding (2 ^ k) (m_memoryBlock a + m_offset a)) + unat sz
      \<le> unat (m_totalSize a) - unat (m_offset a)"
  shows "fst (Alloc sz (2 ^ k) a) \<noteq> nullptr
    \<and> unat (fst (Alloc sz (2 ^ k) a)) mod 2 ^ k = 0
    \<and> fst (Alloc sz (2 ^ k) a) AND (2 ^ k - 1) = 0
    \<and> unat (m_memoryBlock a) + unat (m_offset a) \<le> unat (fst (Alloc sz (2 ^ k) a))
    \<and> (\<forall>x. unat (m_memoryBlock a) + unat (m_offset a) \<le> x \<and> x mod 2 ^ k = 0
          \<longrightarrow> unat (fst (Alloc sz (2 ^ k) a)) \<le> x)"
proof -
  let ?c = "m_memoryBlock a + m_offset a"
  let ?pad = "Alloc_padding (2 ^ k) ?c"
  let ?p = "fst (Alloc sz (2 ^ k) a)"
  from wf have "unat (m_offset a) \<le> unat (m_totalSize a)"
    by (simp add: arena_wf_def word_le_nat_alt)
  with fits have fits': "unat (m_offset a) + unat ?pad + unat sz \<le> unat (m_totalSize a)"
    by simp
  have nn: "?p \<noteq> nullptr"
    by (rule Alloc_fits(4) [OF wf fits'])
  have p: "unat ?p = unat ?c + unat ?pad"
    using Alloc_fits(2) [OF wf fits'] by (simp add: currentPtr_unat [OF wf])
  have al: "unat ?p mod 2 ^ k = 0"
    using padding_aligned [OF k, of ?c] by (simp add: p)
  have "unat (?p AND (2 ^ k - 1)) = 0"
    using al by (simp only: unat_and_pow2_minus1)
  then have mask: "?p AND (2 ^ k - 1) = 0"
    by (simp only: unat_eq_0)
  have ge: "unat (m_memoryBlock a) + unat (m_offset a) \<le> unat ?p"
    using p by (simp add: currentPtr_unat [OF wf])
  have lt: "unat ?p < unat ?c + 2 ^ k"
    using padding_less [OF k, of ?c] by (simp add: p)
  have least: "unat ?p \<le> x" if "unat (m_memoryBlock a) + unat (m_offset a) \<le> x" and "x mod 2 ^ k = 0" for x
  proof (rule least_aligned [OF al that(2) _ lt])
    show "unat ?c \<le> x"
      using that(1) by (simp add: currentPtr_unat [OF wf])
  qed
  from least have "\<forall>x. unat (m_memoryBlock a) + unat (m_offset a) \<le> x \<and> x mod 2 ^ k = 0
          \<longrightarrow> unat ?p \<le> x"
    by (intro allI impI) (elim conjE)
  with nn al mask ge show ?thesis
    by (intro conjI)
qed

theorem Alloc_aligned_witness:
  "arena_wf \<lparr>m_memoryBlock = 4096, m_totalSize = 1024, m_offset = 1\<rparr>
   \<and> (3::nat) < 64
   \<and> unat (Alloc_padding (2 ^ 3) (4096 + 1)) + unat (8 :: size_t) \<le> unat (1024 :: size_t) - unat (1 :: size_t)
   \<and> fst (Alloc 8 (2 ^ 3) \<lparr>m_memoryBlock = 4096, m_totalSize = 1024, m_offset = 1\<rparr>) = 4104
   \<and> unat (fst (Alloc 8 (2 ^ 3) \<lparr>m_memoryBlock = 4096, m_totalSize = 1024, m_offset = 1\<rparr>)) mod 2 ^ 3 = 0"
proof -
  have p: "(2 :: size_t) ^ 3 = 8" by simp
  have wf: "arena_wf \<lparr>m_memoryBlock = 4096, m_totalSize = 1024, m_offset = 1\<rparr>"
    by (simp add: arena_wf_def)
  have k: "(3::nat) < 64" by simp
  have fits: "unat (Alloc_padding (2 ^ 3)
        (m_memoryBlock \<lparr>m_memoryBlock = 4096, m_totalSize = 1024, m_offset = 1\<rparr>
         + m_offset \<lparr>m_memoryBlock = 4096, m_totalSize = 1024, m_offset = 1\<rparr>)) + unat (8 :: size_t)
      \<le> unat (m_totalSize \<lparr>m_memoryBlock = 4096, m_totalSize = 1024, m_offset = 1\<rparr>)
        - unat (m_offset \<lparr>m_memoryBlock = 4096, m_totalSize = 1024, m_offset = 1\<rparr>)"
    by (simp only: p) (simp add: Alloc_padding_def Let_def)
  have v: "fst (Alloc 8 (2 ^ 3) \<lparr>m_memoryBlock = 4096, m_totalSize = 1024, m_offset = 1\<rparr>) = 4104"
    by (simp only: p) (simp add: Alloc_def Alloc_padding_def Let_def)
  have m: "unat (fst (Alloc 8 (2 ^ 3) \<lparr>m_memoryBlock = 4096, m_totalSize = 1024, m_offset = 1\<rparr>)) mod 2 ^ 3 = 0"
    by (rule Alloc_aligned [OF wf k fits, THEN conjunct2, THEN conjunct1])
  have f: "unat (Alloc_padding (2 ^ 3) (4096 + 1)) + unat (8 :: size_t) \<le> unat (1024 :: size_t) - unat (1 :: size_t)"
    using fits by (simp only: ArenaAllocator.simps)
  from wf k f v m show ?thesis
    by (intro conjI)
qed

section \<open>C4: allocations after a request that wrapped\<close>

text \<open>
  Claim C4 (a later allocation starts at or after the end of an earlier one; the ranges
  handed out are disjoint and lie below the offset). The lemma \<open>Alloc_then_Alloc\<close> above
  gives this for two consecutive requests whose bound checks do not wrap. With the
  wrapping request of C2 in between it fails: on a fresh 100-byte arena at address 4096
  the three calls \<^verbatim>\<open>Alloc(8, 1)\<close>, \<^verbatim>\<open>Alloc(18446744073709551612, 1)\<close>, \<^verbatim>\<open>Alloc(8, 1)\<close> all
  succeed and return 4096, 4104 and 4100: the third block starts before the second one,
  and its bytes 4100 to 4107 overlap the first block (4096 to 4103).
\<close>

theorem Alloc_overlap_after_wrap:
  "fst (serve_all [ReqAlloc 8 1, ReqAlloc 18446744073709551612 1, ReqAlloc 8 1 :: unit request]
         (\<lparr>m_memoryBlock = 4096, m_totalSize = 100, m_offset = 0\<rparr>, h))
     = [4096, 4104, 4100]"
  by (simp add: Alloc_def Alloc_padding_def Let_def)

section \<open>C5: rolling back to a marker\<close>

text \<open>
  Claim C5. Take \<open>M = GetMarker()\<close>, serve any sequence \<open>rs\<close> of allocation requests and
  call \<open>ResetToMarker(M)\<close>: then \<open>GetUsedMemory()\<close> is \<open>M\<close>, and any further sequence \<open>rs'\<close>
  of allocation requests returns the same addresses as it would have returned right after
  the marker was taken.
\<close>

theorem marker_roundtrip:
  "GetUsedMemory (ResetToMarker (GetMarker a) (fst (snd (serve_all rs (a, h))))) = GetMarker a
   \<and> fst (serve_all rs' (ResetToMarker (GetMarker a) (fst (snd (serve_all rs (a, h)))),
                        snd (snd (serve_all rs (a, h)))))
     = fst (serve_all rs' (a, h))"
proof -
  have "GetUsedMemory a = GetMarker a"
    by (simp add: GetUsedMemory_def GetMarker_def)
  then show ?thesis
    using serve_all_indep [of rs' a "snd (snd (serve_all rs (a, h)))" h]
    by (simp add: ResetToMarker_restores)
qed

section \<open>C6: \<open>Reset\<close> starts over\<close>




section \<open>C7: \<open>New\<close> and the sentinel\<close>

text \<open>
  Claim C7. For an active arena of at most \<open>PTRDIFF_MAX\<close> bytes and an object type whose
  alignment is a power of two dividing its size, the size being at most \<open>PTRDIFF_MAX\<close>:
  \<^verbatim>\<open>New<T>(args...)\<close> returns null exactly when \<^verbatim>\<open>Alloc(sizeof(T), alignof(T))\<close> returns
  null, which is exactly when the remaining capacity is insufficient; in that case the
  allocator and the memory are unchanged (nothing is constructed); otherwise the
  constructor has run at the address \<^verbatim>\<open>Alloc\<close> returned and that address is returned.
\<close>

theorem New_sentinel:
  assumes wf: "arena_wf a"
    and cap: "unat (m_totalSize a) < 2 ^ 63"
    and k: "k < 64"
    and al: "alignof T = 2 ^ k"
    and dvd: "2 ^ k dvd unat (sizeof T)"
    and sz: "unat (sizeof T) < 2 ^ 63"
  shows "(fst (New T args (a, h)) = nullptr \<longleftrightarrow> fst (Alloc (sizeof T) (alignof T) a) = nullptr)
    \<and> (fst (New T args (a, h)) = nullptr \<longleftrightarrow>
          unat (m_totalSize a) <
            unat (m_offset a) + unat (Alloc_padding (alignof T) (m_memoryBlock a + m_offset a))
              + unat (sizeof T))
    \<and> (fst (New T args (a, h)) = nullptr \<longrightarrow> snd (New T args (a, h)) = (a, h))
    \<and> (fst (New T args (a, h)) \<noteq> nullptr \<longrightarrow>
          fst (New T args (a, h)) = fst (Alloc (sizeof T) (alignof T) a)
          \<and> snd (New T args (a, h)) =
              (snd (Alloc (sizeof T) (alignof T) a),
               ctor T args (fst (Alloc (sizeof T) (alignof T) a)) h))"
proof -
  let ?pad = "Alloc_padding (alignof T) (m_memoryBlock a + m_offset a)"
  let ?need = "unat (m_offset a) + unat ?pad + unat (sizeof T)"
  from wf have off: "m_offset a \<le> m_totalSize a"
    by (simp add: arena_wf_def)
  have nowrap: "?need < 2 ^ 64"
    using class_request_no_wrap [OF k dvd sz cap off] by (simp only: al)
  have fail: "Alloc (sizeof T) (alignof T) a = (nullptr, a)" if "unat (m_totalSize a) < ?need"
    using nowrap that by (rule Alloc_exhausted)
  have succ: "fst (Alloc (sizeof T) (alignof T) a) \<noteq> nullptr" if "\<not> unat (m_totalSize a) < ?need"
  proof -
    from that have "?need \<le> unat (m_totalSize a)" by simp
    with wf show ?thesis by (rule Alloc_fits(4))
  qed
  have iff: "fst (Alloc (sizeof T) (alignof T) a) = nullptr \<longleftrightarrow> unat (m_totalSize a) < ?need"
    using fail succ by (cases "unat (m_totalSize a) < ?need") simp_all
  have c1: "fst (New T args (a, h)) = nullptr \<longleftrightarrow> fst (Alloc (sizeof T) (alignof T) a) = nullptr"
    by (simp only: New_ptr)
  have c2: "fst (New T args (a, h)) = nullptr \<longleftrightarrow> unat (m_totalSize a) < ?need"
    by (simp only: New_ptr iff)
  have c3: "fst (New T args (a, h)) = nullptr \<longrightarrow> snd (New T args (a, h)) = (a, h)"
  proof
    assume "fst (New T args (a, h)) = nullptr"
    then have z: "fst (Alloc (sizeof T) (alignof T) a) = nullptr"
      by (simp only: New_ptr)
    then have "unat (m_totalSize a) < ?need"
      by (simp only: iff)
    then have "snd (Alloc (sizeof T) (alignof T) a) = a"
      by (simp add: fail)
    with New_null [OF z, of args h] show "snd (New T args (a, h)) = (a, h)"
      by simp
  qed
  have c4: "fst (New T args (a, h)) \<noteq> nullptr \<longrightarrow>
          fst (New T args (a, h)) = fst (Alloc (sizeof T) (alignof T) a)
          \<and> snd (New T args (a, h)) =
              (snd (Alloc (sizeof T) (alignof T) a),
               ctor T args (fst (Alloc (sizeof T) (alignof T) a)) h)"
  proof (intro impI conjI)
    assume "fst (New T args (a, h)) \<noteq> nullptr"
    then have nz: "fst (Alloc (sizeof T) (alignof T) a) \<noteq> nullptr"
      by (simp add: New_ptr)
    show "fst (New T args (a, h)) = fst (Alloc (sizeof T) (alignof T) a)"
      by (rule New_ptr)
    show "snd (New T args (a, h)) =
              (snd (Alloc (sizeof T) (alignof T) a),
               ctor T args (fst (Alloc (sizeof T) (alignof T) a)) h)"
      by (rule New_constructs [OF nz])
  qed
  from c1 c2 c3 c4 show ?thesis
    by (intro conjI)
qed

theorem New_sentinel_witness:
  "arena_wf \<lparr>m_memoryBlock = 4096, m_totalSize = 1024, m_offset = 1\<rparr>
   \<and> arena_wf \<lparr>m_memoryBlock = 4096, m_totalSize = 8, m_offset = 4\<rparr>
   \<and> unat (1024 :: size_t) < 2 ^ 63 \<and> unat (8 :: size_t) < 2 ^ 63 \<and> (3::nat) < 64
   \<and> alignof TestObj = 2 ^ 3 \<and> 2 ^ 3 dvd unat (sizeof TestObj) \<and> unat (sizeof TestObj) < 2 ^ 63
   \<and> fst (New TestObj 20480 (\<lparr>m_memoryBlock = 4096, m_totalSize = 8, m_offset = 4\<rparr>, (\<lambda>_. Raw 0))) = nullptr
   \<and> snd (New TestObj 20480 (\<lparr>m_memoryBlock = 4096, m_totalSize = 8, m_offset = 4\<rparr>, (\<lambda>_. Raw 0)))
       = (\<lparr>m_memoryBlock = 4096, m_totalSize = 8, m_offset = 4\<rparr>, (\<lambda>_. Raw 0))
   \<and> fst (New TestObj 20480 (\<lparr>m_memoryBlock = 4096, m_totalSize = 1024, m_offset = 1\<rparr>, (\<lambda>_. Raw 0))) = 4104
   \<and> snd (New TestObj 20480 (\<lparr>m_memoryBlock = 4096, m_totalSize = 1024, m_offset = 1\<rparr>, (\<lambda>_. Raw 0)))
       = (\<lparr>m_memoryBlock = 4096, m_totalSize = 1024, m_offset = 16\<rparr>,
          ctor TestObj 20480 4104 (\<lambda>_. Raw 0))"
proof -
  let ?a = "\<lparr>m_memoryBlock = 4096, m_totalSize = 1024, m_offset = 1\<rparr>"
  let ?b = "\<lparr>m_memoryBlock = 4096, m_totalSize = 8, m_offset = 4\<rparr>"
  have wfa: "arena_wf ?a" and wfb: "arena_wf ?b"
    by (simp_all add: arena_wf_def)
  have capa: "unat (m_totalSize ?a) < 2 ^ 63" and capb: "unat (m_totalSize ?b) < 2 ^ 63"
    by simp_all
  have k: "(3::nat) < 64" by simp
  have al: "alignof TestObj = 2 ^ 3"
    by (simp add: TestObj_def)
  have dvd: "2 ^ 3 dvd unat (sizeof TestObj)"
    by (simp add: TestObj_def)
  have sz: "unat (sizeof TestObj) < 2 ^ 63"
    by (simp add: TestObj_def)
  note A = New_sentinel [OF wfa capa k al dvd sz, of 20480 "\<lambda>_. Raw 0"]
  note B = New_sentinel [OF wfb capb k al dvd sz, of 20480 "\<lambda>_. Raw 0"]
  have allocb: "Alloc 8 8 ?b = (nullptr, ?b)"
    by (simp add: Alloc_def Alloc_padding_def Let_def)
  have alloca: "Alloc 8 8 ?a = (4104, \<lparr>m_memoryBlock = 4096, m_totalSize = 1024, m_offset = 16\<rparr>)"
    by (simp add: Alloc_def Alloc_padding_def Let_def)
  have ab: "fst (Alloc (sizeof TestObj) (alignof TestObj) ?b) = nullptr"
    by (simp add: TestObj_def allocb)
  have aa: "fst (Alloc (sizeof TestObj) (alignof TestObj) ?a) = 4104"
    and aa': "snd (Alloc (sizeof TestObj) (alignof TestObj) ?a)
      = \<lparr>m_memoryBlock = 4096, m_totalSize = 1024, m_offset = 16\<rparr>"
    by (simp_all add: TestObj_def alloca)
  from B [THEN conjunct1] ab have b1: "fst (New TestObj 20480 (?b, (\<lambda>_. Raw 0))) = nullptr"
    by simp
  with B [THEN conjunct2, THEN conjunct2, THEN conjunct1]
  have b2: "snd (New TestObj 20480 (?b, (\<lambda>_. Raw 0))) = (?b, (\<lambda>_. Raw 0))"
    by simp
  from A [THEN conjunct1] aa have "fst (New TestObj 20480 (?a, (\<lambda>_. Raw 0))) \<noteq> nullptr"
    by simp
  with A [THEN conjunct2, THEN conjunct2, THEN conjunct2]
  have a1: "fst (New TestObj 20480 (?a, (\<lambda>_. Raw 0))) = 4104"
    and a2: "snd (New TestObj 20480 (?a, (\<lambda>_. Raw 0)))
       = (\<lparr>m_memoryBlock = 4096, m_totalSize = 1024, m_offset = 16\<rparr>, ctor TestObj 20480 4104 (\<lambda>_. Raw 0))"
    by (simp_all add: aa aa')
  have c1: "unat (1024 :: size_t) < 2 ^ 63" and c2: "unat (8 :: size_t) < 2 ^ 63"
    by simp_all
  from wfa wfb c1 c2 k al dvd sz b1 b2 a1 a2 show ?thesis
    by (intro conjI)
qed

section \<open>C8: what \<open>Reset\<close> and \<open>ResetToMarker\<close> leave alone\<close>

text \<open>
  Claim C8. \<^verbatim>\<open>Reset()\<close> and \<^verbatim>\<open>ResetToMarker(m)\<close> change the field \<^verbatim>\<open>m_offset\<close> and nothing
  else: capacity and block address stay, and as steps of a session they leave every cell
  of the memory as it was. No destructor runs: after \<^verbatim>\<open>New<TestObj>(&flag)\<close> has succeeded
  and \<^verbatim>\<open>Reset()\<close> was called, the flag still reads \<^verbatim>\<open>false\<close>, while running the
  destructor of that object on the same memory would set it to \<^verbatim>\<open>true\<close>.
\<close>

theorem Reset_frame:
  "m_totalSize (Reset a) = m_totalSize a \<and> m_memoryBlock (Reset a) = m_memoryBlock a
   \<and> m_totalSize (ResetToMarker m a) = m_totalSize a
   \<and> m_memoryBlock (ResetToMarker m a) = m_memoryBlock a
   \<and> Reset a = a\<lparr>m_offset := 0\<rparr> \<and> ResetToMarker m a = a\<lparr>m_offset := m\<rparr>
   \<and> step OpReset s = Some (s\<lparr>arena := (arena s)\<lparr>m_offset := 0\<rparr>\<rparr>)
   \<and> (\<forall>s'. step OpReset s = Some s' \<longrightarrow> heap s' = heap s)
   \<and> (\<forall>s'. step (OpResetToMarker m) s = Some s' \<longrightarrow>
          s' = s\<lparr>arena := (arena s)\<lparr>m_offset := m\<rparr>\<rparr> \<and> heap s' = heap s)
   \<and> (\<forall>p a' h' s'. New TestObj flag (a, h) = (p, (a', h')) \<and> p \<noteq> nullptr
          \<and> step OpReset \<lparr>arena = a', heap = h', markers = ms\<rparr> = Some s'
        \<longrightarrow> heap s' flag = Bool False
          \<and> (flag \<noteq> p \<longrightarrow> dtor TestObj p (heap s') flag = Bool True))"
proof -
  have f1: "m_totalSize (Reset a) = m_totalSize a" "m_memoryBlock (Reset a) = m_memoryBlock a"
    "Reset a = a\<lparr>m_offset := 0\<rparr>"
    by (simp_all add: Reset_def)
  have f2: "m_totalSize (ResetToMarker m a) = m_totalSize a"
    "m_memoryBlock (ResetToMarker m a) = m_memoryBlock a"
    "ResetToMarker m a = a\<lparr>m_offset := m\<rparr>"
    by (simp_all add: ResetToMarker_def)
  have f3: "step OpReset s = Some (s\<lparr>arena := (arena s)\<lparr>m_offset := 0\<rparr>\<rparr>)"
    by (simp add: Reset_def)
  have f4: "\<forall>s'. step OpReset s = Some s' \<longrightarrow> heap s' = heap s"
    by auto
  have f5: "\<forall>s'. step (OpResetToMarker m) s = Some s' \<longrightarrow>
          s' = s\<lparr>arena := (arena s)\<lparr>m_offset := m\<rparr>\<rparr> \<and> heap s' = heap s"
    by (auto simp: ResetToMarker_def split: if_splits)
  have f6: "\<forall>p a' h' s'. New TestObj flag (a, h) = (p, (a', h')) \<and> p \<noteq> nullptr
          \<and> step OpReset \<lparr>arena = a', heap = h', markers = ms\<rparr> = Some s'
        \<longrightarrow> heap s' flag = Bool False
          \<and> (flag \<noteq> p \<longrightarrow> dtor TestObj p (heap s') flag = Bool True)"
  proof (intro allI impI)
    fix p a' h' s'
    assume asm: "New TestObj flag (a, h) = (p, (a', h')) \<and> p \<noteq> nullptr
          \<and> step OpReset \<lparr>arena = a', heap = h', markers = ms\<rparr> = Some s'"
    then have new: "New TestObj flag (a, h) = (p, (a', h'))" and nz: "p \<noteq> nullptr"
      and st: "step OpReset \<lparr>arena = a', heap = h', markers = ms\<rparr> = Some s'"
      by simp_all
    from new nz have p: "fst (Alloc (sizeof TestObj) (alignof TestObj) a) \<noteq> nullptr"
      using New_ptr [of TestObj flag a h] by simp
    from New_constructs [OF p, of flag h] new New_ptr [of TestObj flag a h]
    have "h' = ctor TestObj flag p h"
      by simp
    then have h': "h' = (h(p := Ptr flag))(flag := Bool False)"
      by (simp add: TestObj_def)
    from st have hs: "heap s' = h'"
      by auto
    show "heap s' flag = Bool False \<and> (flag \<noteq> p \<longrightarrow> dtor TestObj p (heap s') flag = Bool True)"
      by (simp add: hs h' TestObj_def)
  qed
  from f1 f2 f3 f4 f5 f6 show ?thesis
    by (intro conjI)
qed

theorem Reset_frame_witness:
  "New TestObj 20480 (\<lparr>m_memoryBlock = 4096, m_totalSize = 1024, m_offset = 0\<rparr>, \<lambda>_. Raw 0)
     = (4096, (\<lparr>m_memoryBlock = 4096, m_totalSize = 1024, m_offset = 8\<rparr>,
               ((\<lambda>_. Raw 0)(4096 := Ptr 20480))(20480 := Bool False)))
   \<and> (4096 :: uintptr_t) \<noteq> nullptr
   \<and> step (OpReset :: unit op) \<lparr>arena = \<lparr>m_memoryBlock = 4096, m_totalSize = 1024, m_offset = 8\<rparr>,
          heap = ((\<lambda>_. Raw 0)(4096 := Ptr 20480))(20480 := Bool False), markers = [8]\<rparr>
     = Some \<lparr>arena = \<lparr>m_memoryBlock = 4096, m_totalSize = 1024, m_offset = 0\<rparr>,
          heap = ((\<lambda>_. Raw 0)(4096 := Ptr 20480))(20480 := Bool False), markers = [8]\<rparr>
   \<and> step (OpResetToMarker 8 :: unit op) \<lparr>arena = \<lparr>m_memoryBlock = 4096, m_totalSize = 1024, m_offset = 24\<rparr>,
          heap = ((\<lambda>_. Raw 0)(4096 := Ptr 20480))(20480 := Bool False), markers = [8]\<rparr>
     = Some \<lparr>arena = \<lparr>m_memoryBlock = 4096, m_totalSize = 1024, m_offset = 8\<rparr>,
          heap = ((\<lambda>_. Raw 0)(4096 := Ptr 20480))(20480 := Bool False), markers = [8]\<rparr>
   \<and> (((\<lambda>_. Raw 0)(4096 := Ptr 20480))(20480 := Bool False)) (20480 :: uintptr_t) = Bool False
   \<and> dtor TestObj 4096 (((\<lambda>_. Raw 0)(4096 := Ptr 20480))(20480 := Bool False)) 20480 = Bool True"
proof -
  let ?a = "\<lparr>m_memoryBlock = 4096, m_totalSize = 1024, m_offset = 0\<rparr>"
  let ?a' = "\<lparr>m_memoryBlock = 4096, m_totalSize = 1024, m_offset = 8\<rparr>"
  let ?a2 = "\<lparr>m_memoryBlock = 4096, m_totalSize = 1024, m_offset = 24\<rparr>"
  let ?h = "(\<lambda>_. Raw 0) :: memory"
  let ?h' = "(?h(4096 := Ptr 20480))(20480 := Bool False)"
  let ?s = "\<lparr>arena = ?a', heap = ?h', markers = [8]\<rparr>"
  let ?s' = "\<lparr>arena = ?a, heap = ?h', markers = [8]\<rparr>"
  let ?t = "\<lparr>arena = ?a2, heap = ?h', markers = [8]\<rparr>"
  have new: "New TestObj 20480 (?a, ?h) = (4096, (?a', ?h'))"
    by (simp add: New_def TestObj_def Alloc_def Alloc_padding_def Let_def)
  have nz: "(4096 :: uintptr_t) \<noteq> nullptr"
    by simp
  have st: "step (OpReset :: unit op) ?s = Some ?s'"
    by (simp add: Reset_def)
  have mk: "step (OpResetToMarker 8 :: unit op) ?t = Some ?s"
    by (simp add: ResetToMarker_def)
  note F = Reset_frame [where a = "?a" and h = "?h" and flag = 20480 and ms = "[8]"
      and s = "?t" and m = 8]
  from F have "\<forall>s'. step (OpResetToMarker 8 :: unit op) ?t = Some s' \<longrightarrow>
      s' = ?t\<lparr>arena := (arena ?t)\<lparr>m_offset := 8\<rparr>\<rparr> \<and> heap s' = heap ?t"
    by (elim conjE)
  with mk have "heap ?s = heap ?t"
    by simp
  from F have "\<forall>p a' h' s'. New TestObj 20480 (?a, ?h) = (p, (a', h')) \<and> p \<noteq> nullptr
          \<and> step (OpReset :: unit op) \<lparr>arena = a', heap = h', markers = [8]\<rparr> = Some s'
        \<longrightarrow> heap s' 20480 = Bool False
          \<and> (20480 \<noteq> p \<longrightarrow> dtor TestObj p (heap s') 20480 = Bool True)"
    by (elim conjE)
  then have "New TestObj 20480 (?a, ?h) = (4096, (?a', ?h')) \<and> (4096 :: uintptr_t) \<noteq> nullptr
          \<and> step (OpReset :: unit op) ?s = Some ?s'
        \<longrightarrow> heap ?s' 20480 = Bool False
          \<and> ((20480 :: uintptr_t) \<noteq> 4096 \<longrightarrow> dtor TestObj 4096 (heap ?s') 20480 = Bool True)"
    by (elim allE)
  with new nz st have "heap ?s' 20480 = Bool False
          \<and> dtor TestObj 4096 (heap ?s') 20480 = Bool True"
    by simp
  then have r: "?h' 20480 = Bool False" "dtor TestObj 4096 ?h' 20480 = Bool True"
    by simp_all
  from new nz st mk r show ?thesis
    by (intro conjI)
qed

section \<open>C9: \<open>AllocArray\<close> multiplies in \<open>size_t\<close>\<close>

text \<open>
  Claim C9. \<^verbatim>\<open>AllocArray<T>(count)\<close> requests \<^verbatim>\<open>sizeof(T) * count\<close> bytes, the product
  taken modulo \<open>2 ^ 64\<close> with no overflow check. There is a type and a count whose
  product overflows for which the call returns a non-null pointer although it has
  reserved fewer bytes than \<open>count * sizeof(T)\<close>, more than the arena even holds: a
  4-byte type with alignment 4 and \<open>count = 2 ^ 62 + 1\<close> on a 1024-byte arena reserves
  4 bytes.
\<close>

theorem AllocArray_wraps:
  "AllocArray T count a = Alloc (sizeof T * count) (alignof T) a
   \<and> unat (sizeof T * count) = (unat (sizeof T) * unat count) mod 2 ^ 64
   \<and> (\<exists>(T' :: unit cxx_class) count' a'.
         arena_wf a'
         \<and> 2 ^ 64 \<le> unat (sizeof T') * unat count'
         \<and> fst (AllocArray T' count' a') \<noteq> nullptr
         \<and> unat (m_offset (snd (AllocArray T' count' a'))) - unat (m_offset a')
             < unat (sizeof T') * unat count'
         \<and> unat (m_totalSize a') < unat (sizeof T') * unat count')"
proof -
  let ?T = "\<lparr>sizeof = 4, alignof = 4, ctor = (\<lambda>_ _ h. h), dtor = (\<lambda>_ h. h)\<rparr> :: unit cxx_class"
  let ?a = "\<lparr>m_memoryBlock = 4096, m_totalSize = 1024, m_offset = 0\<rparr>"
  have c1: "AllocArray T count a = Alloc (sizeof T * count) (alignof T) a"
    by (simp add: AllocArray_def)
  have c2: "unat (sizeof T * count) = (unat (sizeof T) * unat count) mod 2 ^ 64"
    by (simp add: unat_word_ariths)
  have ev: "AllocArray ?T 4611686018427387905 ?a
      = (4096, \<lparr>m_memoryBlock = 4096, m_totalSize = 1024, m_offset = 4\<rparr>)"
    by (simp add: AllocArray_def Alloc_def Alloc_padding_def Let_def)
  have "arena_wf ?a
         \<and> 2 ^ 64 \<le> unat (sizeof ?T) * unat (4611686018427387905 :: size_t)
         \<and> fst (AllocArray ?T 4611686018427387905 ?a) \<noteq> nullptr
         \<and> unat (m_offset (snd (AllocArray ?T 4611686018427387905 ?a))) - unat (m_offset ?a)
             < unat (sizeof ?T) * unat (4611686018427387905 :: size_t)
         \<and> unat (m_totalSize ?a) < unat (sizeof ?T) * unat (4611686018427387905 :: size_t)"
    by (simp add: ev arena_wf_def)
  then have c3: "\<exists>(T' :: unit cxx_class) count' a'.
         arena_wf a'
         \<and> 2 ^ 64 \<le> unat (sizeof T') * unat count'
         \<and> fst (AllocArray T' count' a') \<noteq> nullptr
         \<and> unat (m_offset (snd (AllocArray T' count' a'))) - unat (m_offset a')
             < unat (sizeof T') * unat count'
         \<and> unat (m_totalSize a') < unat (sizeof T') * unat count'"
    by (intro exI)
  from c1 c2 c3 show ?thesis
    by (intro conjI)
qed

section \<open>C10: zero-size allocations\<close>

text \<open>
  Claim C10. For an active arena whose current position \<open>base + offset\<close> is a multiple of
  the alignment \<open>2 ^ k\<close>, the padding is 0 and \<^verbatim>\<open>Alloc(0, align)\<close> succeeds: it returns
  \<open>base + offset\<close>, which is not null, and leaves the allocator as it was. When the arena
  is full (\<open>offset = capacity\<close>) the address returned is the one-past-the-end address
  \<open>base + capacity\<close>, not the sentinel.
\<close>

theorem Alloc_zero_size:
  assumes wf: "arena_wf a"
    and k: "k < 64"
    and aligned: "unat (m_memoryBlock a + m_offset a) mod 2 ^ k = 0"
  shows "Alloc_padding (2 ^ k) (m_memoryBlock a + m_offset a) = 0
    \<and> Alloc 0 (2 ^ k) a = (m_memoryBlock a + m_offset a, a)
    \<and> fst (Alloc 0 (2 ^ k) a) \<noteq> nullptr
    \<and> (m_offset a = m_totalSize a \<longrightarrow>
          fst (Alloc 0 (2 ^ k) a) = m_memoryBlock a + m_totalSize a
          \<and> unat (fst (Alloc 0 (2 ^ k) a)) = unat (m_memoryBlock a) + unat (m_totalSize a))"
proof -
  let ?c = "m_memoryBlock a + m_offset a"
  have "unat (Alloc_padding (2 ^ k) ?c) = 0"
    using aligned by (simp add: padding_unat [OF k])
  then have pad: "Alloc_padding (2 ^ k) ?c = 0"
    by (simp only: unat_eq_0)
  from wf have "unat (m_offset a) \<le> unat (m_totalSize a)"
    by (simp add: arena_wf_def word_le_nat_alt)
  then have fits: "unat (m_offset a) + unat (Alloc_padding (2 ^ k) ?c) + unat (0 :: size_t)
      \<le> unat (m_totalSize a)"
    by (simp add: pad)
  have eq: "Alloc 0 (2 ^ k) a = (?c, a)"
    using Alloc_fits(1) [OF wf fits] by (simp add: pad)
  have nn: "fst (Alloc 0 (2 ^ k) a) \<noteq> nullptr"
    by (rule Alloc_fits(4) [OF wf fits])
  have "unat ?c = unat (m_memoryBlock a) + unat (m_offset a)"
    by (rule currentPtr_unat [OF wf])
  with pad eq nn show ?thesis
    by auto
qed

theorem Alloc_zero_size_witness:
  "arena_wf \<lparr>m_memoryBlock = 4096, m_totalSize = 64, m_offset = 64\<rparr>
   \<and> (4::nat) < 64
   \<and> unat (4096 + 64 :: uintptr_t) mod 2 ^ 4 = 0
   \<and> Alloc 0 (2 ^ 4) \<lparr>m_memoryBlock = 4096, m_totalSize = 64, m_offset = 64\<rparr>
       = (4160, \<lparr>m_memoryBlock = 4096, m_totalSize = 64, m_offset = 64\<rparr>)"
proof -
  have wf: "arena_wf \<lparr>m_memoryBlock = 4096, m_totalSize = 64, m_offset = 64\<rparr>"
    by (simp add: arena_wf_def)
  have k: "(4::nat) < 64" by simp
  have al: "unat (m_memoryBlock \<lparr>m_memoryBlock = 4096, m_totalSize = 64, m_offset = 64\<rparr>
        + m_offset \<lparr>m_memoryBlock = 4096, m_totalSize = 64, m_offset = 64\<rparr>) mod 2 ^ 4 = 0"
    by simp
  from Alloc_zero_size [OF wf k al]
  have e: "Alloc 0 (2 ^ 4) \<lparr>m_memoryBlock = 4096, m_totalSize = 64, m_offset = 64\<rparr>
       = (4160, \<lparr>m_memoryBlock = 4096, m_totalSize = 64, m_offset = 64\<rparr>)"
    by simp
  have al': "unat (4096 + 64 :: uintptr_t) mod 2 ^ 4 = 0"
    by simp
  from wf k al' e show ?thesis
    by (intro conjI)
qed

end
